theory Spec2Isabelle
  imports Complex_Main
begin

section \<open>The Move component of the slider (Move.ts)\<close>

text \<open>
  The component converts slide indices to track offsets and back, wraps offsets in loop
  mode, and serialises move requests. JavaScript numbers are modelled as exact reals; the
  one place where the source can leave the finite numbers (a division by a zero slider
  size inside \<open>loop\<close>) is a value of its own, \<open>NaN\<close>.
\<close>

subsection \<open>Options and collaborators\<close>

datatype SliderType = SLIDE | LOOP | FADE

text \<open>\<open>options.trimSpace\<close> is \<open>false\<close>, \<open>true\<close> or \<open>'move'\<close>; the last two are truthy.\<close>

datatype TrimSpace = TrimFalse | TrimTrue | TrimMove

text \<open>\<open>options.focus\<close> is \<open>'center'\<close> or a number, and may be left undefined.\<close>

datatype Focus = FocusCenter | FocusNumber real

datatype Direction = LTR | RTL | TTB

record Options =
  slider_type :: SliderType
  trimSpace :: TrimSpace
  focus :: "Focus option"
  waitForTransition :: bool
  direction :: Direction

text \<open>A slide component of the registry; only its \<open>index\<close> is read here.\<close>

record Slide =
  slide_index :: int

text \<open>
  What the component reads from its collaborators: the options, the Layout functions
  (\<open>slideSize(index, withoutGap)\<close>, \<open>totalSize(index)\<close>, \<open>listSize()\<close>,
  \<open>sliderSize()\<close>, \<open>getPadding(right)\<close>), \<open>Controller.getEnd()\<close> and the slide
  registry \<open>Slides.get()\<close>.
\<close>

record Env =
  options :: Options
  slideSize :: "int \<Rightarrow> bool \<Rightarrow> real"
  totalSize :: "int \<Rightarrow> real"
  listSize :: real
  sliderSize :: real
  getPadding :: "bool \<Rightarrow> real"
  getEnd :: int
  Slides :: "Slide list"

text \<open>
  The layout the browser reports when the component reads it: the edges
  \<open>rect(list)[resolve('left')]\<close> and \<open>rect(track)[resolve('left')]\<close>.
\<close>

record Dom =
  list_left :: real
  track_left :: real

datatype number = Finite real | NaN

datatype MotionState = IDLE | MOVING

datatype Event = EVENT_MOVE | EVENT_MOVED

text \<open>
  The closure handed to \<open>Transition.start\<close>: the arguments of the \<open>move\<close> call it
  belongs to and the position read before the move. A callback is named by a number.
\<close>

record Handler =
  h_dest :: int
  h_index :: int
  h_prev :: int
  h_callback :: "nat option"
  h_position :: real

text \<open>Calls that leave the component, in the order they are made.\<close>

datatype Effect =
  Emit Event int int int
  | TransitionStart int Handler
  | TransitionCancel
  | ControllerGo string bool "nat option"
  | Invoke nat

record State =
  waiting :: bool
  splide_state :: MotionState
  transform :: "number option"
  trace :: "Effect list"

text \<open>
  After construction: \<open>waiting\<close> is undefined (falsy), no transform rule is written,
  nothing has been called.
\<close>

definition initial :: State where
  "initial = \<lparr>waiting = False, splide_state = IDLE, transform = None, trace = []\<rparr>"

subsection \<open>Helpers imported by the component\<close>

text \<open>
  The utilities \<open>abs\<close>, \<open>ceil\<close> and \<open>sign\<close> are JavaScript's \<open>Math\<close> functions;
  on reals they are absolute value, ceiling and signum.
\<close>

text \<open>
  Modelled from the spec: \<open>Direction.orient\<close> is not part of the sources at hand. The
  orientation collaborator turns a value into a signed value along the principal axis:
  the sign is kept for right-to-left sliders and flipped otherwise (so that index 1 of
  200px slides sits at offset -200).
\<close>

definition orient :: "Env \<Rightarrow> real \<Rightarrow> real" where
  "orient env v = v * (if direction (options env) = RTL then 1 else - 1)"

text \<open>
  Modelled from the spec: the \<open>clamp\<close> utility is not part of the sources at hand. It
  clamps a number into the interval spanned by two bounds given in either order.
\<close>

definition clamp :: "real \<Rightarrow> real \<Rightarrow> real \<Rightarrow> real" where
  "clamp n x y = min (max (min x y) n) (max x y)"

definition is_type :: "Env \<Rightarrow> SliderType \<Rightarrow> bool" where
  "is_type env t = (slider_type (options env) = t)"

subsection \<open>Position model\<close>

text \<open>
  \<open>focus === 'center' ? (listSize() - slideSize(index, true)) / 2
                       : +focus * slideSize(index) || 0\<close>.
  An undefined focus makes the product NaN, which \<open>|| 0\<close> turns into 0.
\<close>

definition offset :: "Env \<Rightarrow> int \<Rightarrow> real" where
  "offset env idx =
     (case focus (options env) of
        Some FocusCenter \<Rightarrow> (listSize env - slideSize env idx True) / 2
      | Some (FocusNumber f) \<Rightarrow> f * slideSize env idx False
      | None \<Rightarrow> 0)"

definition trim :: "Env \<Rightarrow> real \<Rightarrow> real" where
  "trim env position =
     (if trimSpace (options env) \<noteq> TrimFalse \<and> is_type env SLIDE
      then clamp position 0 (orient env (sliderSize env - listSize env))
      else position)"

definition toPosition :: "Env \<Rightarrow> int \<Rightarrow> bool \<Rightarrow> real" where
  "toPosition env idx trimming =
     (let position = orient env (totalSize env (idx - 1) - offset env idx)
      in if trimming then trim env position else position)"

definition getPosition :: "Env \<Rightarrow> Dom \<Rightarrow> real" where
  "getPosition env rects = list_left rects - track_left rects + orient env (getPadding env False)"

text \<open>
  The loop of \<open>toIndex\<close>: \<open>idx\<close> and \<open>minDistance\<close> are the loop variables
  (\<open>None\<close> is \<open>Infinity\<close>); the scan breaks at the first slide that is not strictly closer.
\<close>

fun toIndex_scan :: "Env \<Rightarrow> real \<Rightarrow> Slide list \<Rightarrow> int \<Rightarrow> real option \<Rightarrow> int" where
  "toIndex_scan env position [] idx minDistance = idx"
| "toIndex_scan env position (s # ss) idx minDistance =
     (let slideIndex = slide_index s;
          distance = \<bar>toPosition env slideIndex True - position\<bar>
      in if (case minDistance of None \<Rightarrow> True | Some m \<Rightarrow> distance < m)
         then toIndex_scan env position ss slideIndex (Some distance)
         else idx)"

definition toIndex :: "Env \<Rightarrow> real \<Rightarrow> int" where
  "toIndex env position = toIndex_scan env position (Slides env) 0 None"

subsection \<open>Limits\<close>

definition getLimit :: "Env \<Rightarrow> bool \<Rightarrow> real" where
  "getLimit env mx =
     toPosition env (if mx then getEnd env else 0) (trimSpace (options env) \<noteq> TrimFalse)"

text \<open>
  \<open>max\<close> is \<open>true\<close>, \<open>false\<close> or undefined (both bounds); an undefined position
  is the current one.
\<close>

definition exceededLimit :: "Env \<Rightarrow> Dom \<Rightarrow> bool option \<Rightarrow> real option \<Rightarrow> bool" where
  "exceededLimit env rects mx position =
     (let p = (case position of None \<Rightarrow> getPosition env rects | Some q \<Rightarrow> q);
          exceededMin = (mx \<noteq> Some True \<and> orient env p < orient env (getLimit env False));
          exceededMax = (mx \<noteq> Some False \<and> orient env p > orient env (getLimit env True))
      in exceededMin \<or> exceededMax)"

subsection \<open>Loop wrapper\<close>

text \<open>
  With a zero slider size the source computes \<open>sign(excess) * 0 * ceil(Infinity)\<close>,
  which is NaN (the excess is never 0 in that branch).
\<close>

definition loop :: "Env \<Rightarrow> State \<Rightarrow> Dom \<Rightarrow> real \<Rightarrow> number" where
  "loop env st rects position =
     (if \<not> waiting st \<and> is_type env LOOP then
        let diff = orient env (position - getPosition env rects);
            exceededMin = (exceededLimit env rects (Some False) (Some position) \<and> diff < 0);
            exceededMax = (exceededLimit env rects (Some True) (Some position) \<and> diff > 0)
        in if exceededMin \<or> exceededMax then
             let excess = position - getLimit env exceededMax;
                 size = sliderSize env
             in if size = 0 then NaN
                else Finite (position - sgn excess * size * of_int \<lceil>\<bar>excess\<bar> / size\<rceil>)
           else Finite position
      else Finite position)"

subsection \<open>Motion\<close>

definition isBusy :: "State \<Rightarrow> bool" where
  "isBusy st = waiting st"

text \<open>The only write to the rendered position: the transform rule of the list.\<close>

definition translate :: "Env \<Rightarrow> Dom \<Rightarrow> real \<Rightarrow> bool \<Rightarrow> State \<Rightarrow> State" where
  "translate env rects position preventLoop st =
     st\<lparr>transform := Some (if preventLoop then Finite position else loop env st rects position)\<rparr>"

definition jump :: "Env \<Rightarrow> Dom \<Rightarrow> int \<Rightarrow> State \<Rightarrow> State" where
  "jump env rects idx st = translate env rects (toPosition env idx True) False st"

definition cancel :: "Env \<Rightarrow> Dom \<Rightarrow> State \<Rightarrow> State" where
  "cancel env rects st =
     (let st1 = st\<lparr>waiting := False\<rparr>;
          st2 = st1\<lparr>trace := trace st1 @ [TransitionCancel]\<rparr>
      in translate env rects (getPosition env rects) False st2)"

definition move :: "Env \<Rightarrow> Dom \<Rightarrow> int \<Rightarrow> int \<Rightarrow> int \<Rightarrow> nat option \<Rightarrow> State \<Rightarrow> State" where
  "move env rects dest idx prev callback st =
     (if \<not> isBusy st then
        let position = getPosition env rects;
            looping = (dest \<noteq> idx);
            handler = \<lparr>h_dest = dest, h_index = idx, h_prev = prev,
                       h_callback = callback, h_position = position\<rparr>
        in st\<lparr>waiting := (looping \<or> waitForTransition (options env)),
              splide_state := MOVING,
              trace := trace st @ [Emit EVENT_MOVE idx prev dest, TransitionStart dest handler]\<rparr>
      else st)"

text \<open>
  The completion handler of \<open>move\<close>, run by the transition executor. \<open>rects\<close> is the
  layout when the handler starts (read by \<open>jump\<close>), \<open>rects'\<close> the layout when the
  position is read again at the end.
\<close>

definition transitionDone :: "Env \<Rightarrow> Dom \<Rightarrow> Dom \<Rightarrow> Handler \<Rightarrow> State \<Rightarrow> State" where
  "transitionDone env rects rects' h st =
     (let looping = (h_dest h \<noteq> h_index h);
          st1 = (if looping then jump env rects (h_index h) st else st);
          st2 = st1\<lparr>waiting := False, splide_state := IDLE,
                    trace := trace st1 @ [Emit EVENT_MOVED (h_index h) (h_prev h) (h_dest h)]\<rparr>
      in if trimSpace (options env) = TrimMove \<and> h_dest h \<noteq> h_prev h
            \<and> h_position h = getPosition env rects'
         then st2\<lparr>trace := trace st2 @
                [ControllerGo (if h_dest h > h_prev h then ''>'' else ''<'') False (h_callback h)]\<rparr>
         else (case h_callback h of
                 None \<Rightarrow> st2
               | Some cb \<Rightarrow> st2\<lparr>trace := trace st2 @ [Invoke cb]\<rparr>))"

subsection \<open>Scenarios\<close>

text \<open>
  A slider of \<open>n\<close> slides, each \<open>w\<close> wide and without gap, in a viewport of width
  \<open>vp\<close>; slides outside \<open>0..n-1\<close> (clones) have no dimensions. The registry holds the
  slides \<open>0..n-1\<close>.
\<close>

definition uniform :: "Options \<Rightarrow> nat \<Rightarrow> real \<Rightarrow> real \<Rightarrow> int \<Rightarrow> Env" where
  "uniform opts n w vp e =
     \<lparr>options = opts,
      slideSize = (\<lambda>i g. if 0 \<le> i \<and> i < int n then w else 0),
      totalSize = (\<lambda>i. if 0 \<le> i \<and> i < int n then w * (of_int i + 1) else 0),
      listSize = vp,
      sliderSize = w * of_nat n,
      getPadding = (\<lambda>r. 0),
      getEnd = e,
      Slides = map (\<lambda>i. \<lparr>slide_index = int i\<rparr>) [0..<n]\<rparr>"

definition default_options :: Options where
  "default_options =
     \<lparr>slider_type = SLIDE, trimSpace = TrimTrue, focus = None,
      waitForTransition = True, direction = LTR\<rparr>"

definition at_rest :: Dom where
  "at_rest = \<lparr>list_left = 0, track_left = 0\<rparr>"

definition nowait_options :: Options where
  "nowait_options = default_options\<lparr>waitForTransition := False\<rparr>"

definition loop_options :: Options where
  "loop_options = default_options\<lparr>slider_type := LOOP\<rparr>"

definition center_options :: Options where
  "center_options = default_options\<lparr>focus := Some FocusCenter\<rparr>"

definition move_options :: Options where
  "move_options = default_options\<lparr>trimSpace := TrimMove\<rparr>"

text \<open>
  The state after \<open>move(1, 1, 0)\<close> was accepted without \<open>waitForTransition\<close>: the
  slider is moving and the waiting flag is clear.
\<close>

definition moving_idle_flag :: State where
  "moving_idle_flag = move (uniform nowait_options 5 200 200 4) at_rest 1 1 0 None initial"

text \<open>The state after \<open>move(1, 1, -1)\<close> was accepted with the default options.\<close>

definition busy_state :: State where
  "busy_state = move (uniform default_options 5 200 200 4) at_rest 1 1 (- 1) None initial"

text \<open>Layouts: the list shifted by 10 past the first slide, and resting on later slides.\<close>

definition overshot :: Dom where
  "overshot = \<lparr>list_left = 10, track_left = 0\<rparr>"

definition second_slide :: Dom where
  "second_slide = \<lparr>list_left = - 200, track_left = 0\<rparr>"

definition trimmed_end :: Dom where
  "trimmed_end = \<lparr>list_left = - 600, track_left = 0\<rparr>"

definition last_slide :: Dom where
  "last_slide = \<lparr>list_left = - 800, track_left = 0\<rparr>"

text \<open>
  Two completion handlers with callback 7: a move from index 3 to 4 that started at
  offset -600, and a move from index 0 to 1 that started at offset 0.
\<close>

definition absorbed :: Handler where
  "absorbed = \<lparr>h_dest = 4, h_index = 4, h_prev = 3, h_callback = Some 7, h_position = - 600\<rparr>"

definition advanced :: Handler where
  "advanced = \<lparr>h_dest = 1, h_index = 1, h_prev = 0, h_callback = Some 7, h_position = 0\<rparr>"

text \<open>A loop geometry whose slider size equals the distance between its two limits.\<close>

definition fitted :: Env where
  "fitted = (uniform loop_options 5 200 200 4)\<lparr>sliderSize := 800\<rparr>"

lemmas scenario_defs =
  uniform_def default_options_def nowait_options_def loop_options_def center_options_def
  move_options_def at_rest_def initial_def

section \<open>Auxiliary facts\<close>

subsection \<open>Orientation and limits\<close>

lemma exceeded_min_iff:
  "exceededLimit env rects (Some False) (Some p)
     = (orient env p < orient env (getLimit env False))"
  by (simp add: exceededLimit_def Let_def)

lemma exceeded_max_iff:
  "exceededLimit env rects (Some True) (Some p)
     = (orient env p > orient env (getLimit env True))"
  by (simp add: exceededLimit_def Let_def)

lemma exceeded_both_iff:
  "exceededLimit env rects None (Some p)
     = (orient env p < orient env (getLimit env False)
        \<or> orient env p > orient env (getLimit env True))"
  by (simp add: exceededLimit_def Let_def)

lemma trace_jump: "trace (jump env rects i st) = trace st"
  by (simp add: jump_def translate_def)

subsection \<open>The branches of the loop wrapper\<close>

lemma loop_inactive:
  "waiting st \<or> \<not> is_type env LOOP \<Longrightarrow> loop env st rects p = Finite p"
  by (auto simp add: loop_def)

lemma loop_within:
  assumes "\<not> (exceededLimit env rects (Some False) (Some p)
                \<and> orient env (p - getPosition env rects) < 0)"
    and "\<not> (exceededLimit env rects (Some True) (Some p)
                \<and> orient env (p - getPosition env rects) > 0)"
  shows "loop env st rects p = Finite p"
  using assms by (auto simp add: loop_def Let_def)

lemma loop_past_min:
  assumes "is_type env LOOP" and "\<not> waiting st" and "sliderSize env \<noteq> 0"
    and "exceededLimit env rects (Some False) (Some p)"
    and "orient env (p - getPosition env rects) < 0"
  shows "loop env st rects p
    = Finite (p - sgn (p - getLimit env False) * sliderSize env
        * of_int \<lceil>\<bar>p - getLimit env False\<bar> / sliderSize env\<rceil>)"
  using assms by (simp add: loop_def Let_def)

lemma loop_past_max:
  assumes "is_type env LOOP" and "\<not> waiting st" and "sliderSize env \<noteq> 0"
    and "exceededLimit env rects (Some True) (Some p)"
    and "orient env (p - getPosition env rects) > 0"
  shows "loop env st rects p
    = Finite (p - sgn (p - getLimit env True) * sliderSize env
        * of_int \<lceil>\<bar>p - getLimit env True\<bar> / sliderSize env\<rceil>)"
  using assms by (simp add: loop_def Let_def)

lemma loop_zero_size:
  assumes "is_type env LOOP" and "\<not> waiting st" and "sliderSize env = 0"
    and "(exceededLimit env rects (Some False) (Some p)
            \<and> orient env (p - getPosition env rects) < 0)
       \<or> (exceededLimit env rects (Some True) (Some p)
            \<and> orient env (p - getPosition env rects) > 0)"
  shows "loop env st rects p = NaN"
  using assms by (auto simp add: loop_def Let_def)

lemma ceiling_unit: "0 < x \<Longrightarrow> x \<le> 1 \<Longrightarrow> \<lceil>x::real\<rceil> = 1"
  by (simp add: ceiling_eq_iff)

text \<open>Folding a positive excess by whole lengths leaves a residue in \<open>(-z, 0]\<close>.\<close>

lemma fold_residue:
  fixes z e :: real
  assumes "0 < z" and "0 < e"
  shows "e - z * of_int \<lceil>e / z\<rceil> \<le> 0" and "- z < e - z * of_int \<lceil>e / z\<rceil>"
proof -
  have ez: "e / z * z = e" using assms(1) by simp
  have "e / z * z \<le> of_int \<lceil>e / z\<rceil> * z"
    using assms(1) by (intro mult_right_mono le_of_int_ceiling) simp
  with ez show "e - z * of_int \<lceil>e / z\<rceil> \<le> 0" by (simp add: mult.commute)
  have "of_int \<lceil>e / z\<rceil> - 1 < e / z" using ceiling_correct [of "e / z"] by linarith
  then have "(of_int \<lceil>e / z\<rceil> - 1) * z < e / z * z"
    using assms(1) by (rule mult_strict_right_mono)
  with ez show "- z < e - z * of_int \<lceil>e / z\<rceil>" by (simp add: algebra_simps)
qed

text \<open>The wrap formula reads the same in oriented coordinates.\<close>

lemma orient_fold:
  "orient env (p - sgn (p - l) * z * of_int \<lceil>\<bar>p - l\<bar> / z\<rceil>)
     = orient env p - sgn (orient env p - orient env l) * z
         * of_int \<lceil>\<bar>orient env p - orient env l\<bar> / z\<rceil>"
proof (cases "direction (options env) = RTL")
  case True
  then show ?thesis by (simp add: orient_def)
next
  case False
  have "sgn (l - p) = - sgn (p - l)" by (metis minus_diff_eq sgn_minus)
  moreover have "\<bar>l - p\<bar> = \<bar>p - l\<bar>" by (rule abs_minus_commute)
  ultimately show ?thesis using False by (simp add: orient_def algebra_simps)
qed

lemma wrapped_past_min_within:
  assumes z: "0 < sliderSize env"
    and fit: "sliderSize env \<le> orient env (getLimit env True) - orient env (getLimit env False)"
    and ex: "orient env p < orient env (getLimit env False)"
  defines "y \<equiv> p - sgn (p - getLimit env False) * sliderSize env
        * of_int \<lceil>\<bar>p - getLimit env False\<bar> / sliderSize env\<rceil>"
  shows "\<not> orient env y < orient env (getLimit env False)"
    and "\<not> orient env y > orient env (getLimit env True)"
proof -
  let ?q = "orient env p" and ?l = "orient env (getLimit env False)" and ?z = "sliderSize env"
  have e: "0 < ?l - ?q" using ex by simp
  have "orient env y = ?q - sgn (?q - ?l) * ?z * of_int \<lceil>\<bar>?q - ?l\<bar> / ?z\<rceil>"
    unfolding y_def by (rule orient_fold)
  also have "\<dots> = ?q + ?z * of_int \<lceil>(?l - ?q) / ?z\<rceil>"
    using ex by simp
  finally have oy: "orient env y = ?l - ((?l - ?q) - ?z * of_int \<lceil>(?l - ?q) / ?z\<rceil>)"
    by simp
  from fold_residue [OF z e] oy fit
  show "\<not> orient env y < ?l" and "\<not> orient env y > orient env (getLimit env True)"
    by linarith+
qed

lemma wrapped_past_max_within:
  assumes z: "0 < sliderSize env"
    and fit: "sliderSize env \<le> orient env (getLimit env True) - orient env (getLimit env False)"
    and ex: "orient env p > orient env (getLimit env True)"
  defines "y \<equiv> p - sgn (p - getLimit env True) * sliderSize env
        * of_int \<lceil>\<bar>p - getLimit env True\<bar> / sliderSize env\<rceil>"
  shows "\<not> orient env y < orient env (getLimit env False)"
    and "\<not> orient env y > orient env (getLimit env True)"
proof -
  let ?q = "orient env p" and ?u = "orient env (getLimit env True)" and ?z = "sliderSize env"
  have e: "0 < ?q - ?u" using ex by simp
  have "orient env y = ?q - sgn (?q - ?u) * ?z * of_int \<lceil>\<bar>?q - ?u\<bar> / ?z\<rceil>"
    unfolding y_def by (rule orient_fold)
  also have "\<dots> = ?q - ?z * of_int \<lceil>(?q - ?u) / ?z\<rceil>"
    using ex by simp
  finally have oy: "orient env y = ?u + ((?q - ?u) - ?z * of_int \<lceil>(?q - ?u) / ?z\<rceil>)"
    by simp
  from fold_residue [OF z e] oy fit
  show "\<not> orient env y < orient env (getLimit env False)" and "\<not> orient env y > ?u"
    by linarith+
qed

lemma loop_idempotent_when_size_fits:
  assumes z: "0 < sliderSize env"
    and fit: "sliderSize env \<le> orient env (getLimit env True) - orient env (getLimit env False)"
  shows "\<exists>y. loop env st rects x = Finite y \<and> loop env st rects y = Finite y"
proof (cases "waiting st \<or> \<not> is_type env LOOP")
  case True
  then show ?thesis by (simp add: loop_inactive)
next
  case active: False
  let ?c = "getPosition env rects"
  consider
    (mn) "exceededLimit env rects (Some False) (Some x) \<and> orient env (x - ?c) < 0"
  | (mx) "exceededLimit env rects (Some True) (Some x) \<and> orient env (x - ?c) > 0"
  | (within) "\<not> (exceededLimit env rects (Some False) (Some x) \<and> orient env (x - ?c) < 0)"
      "\<not> (exceededLimit env rects (Some True) (Some x) \<and> orient env (x - ?c) > 0)"
    by blast
  then show ?thesis
  proof cases
    case mn
    let ?y = "x - sgn (x - getLimit env False) * sliderSize env
        * of_int \<lceil>\<bar>x - getLimit env False\<bar> / sliderSize env\<rceil>"
    have "loop env st rects x = Finite ?y"
      using active mn z by (intro loop_past_min) simp_all
    moreover have "loop env st rects ?y = Finite ?y"
      using wrapped_past_min_within [OF z fit, of x] mn
      by (intro loop_within) (simp_all add: exceeded_min_iff exceeded_max_iff)
    ultimately show ?thesis by blast
  next
    case mx
    let ?y = "x - sgn (x - getLimit env True) * sliderSize env
        * of_int \<lceil>\<bar>x - getLimit env True\<bar> / sliderSize env\<rceil>"
    have "loop env st rects x = Finite ?y"
      using active mx z by (intro loop_past_max) simp_all
    moreover have "loop env st rects ?y = Finite ?y"
      using wrapped_past_max_within [OF z fit, of x] mx
      by (intro loop_within) (simp_all add: exceeded_min_iff exceeded_max_iff)
    ultimately show ?thesis by blast
  next
    case within
    then have "loop env st rects x = Finite x" by (rule loop_within)
    then show ?thesis by simp
  qed
qed

text \<open>
  The loop scenario of the tests: \<open>n\<close> slides of 200px in a 200px viewport, the list at
  rest on the first slide. \<open>translate(200)\<close> exceeds the minimum limit 0 by 200, which
  is folded back by one slider size \<open>200 * n\<close>.
\<close>

lemma loop_scenario_translate:
  assumes "1 \<le> n"
  shows "transform (translate (uniform loop_options n 200 200 (int n - 1)) at_rest 200 False initial)
     = Some (Finite (- (200 * (real n - 1))))"
proof -
  let ?env = "uniform loop_options n 200 200 (int n - 1)"
  have pos: "getPosition ?env at_rest = 0"
    by (simp add: getPosition_def orient_def scenario_defs)
  have lim: "getLimit ?env False = 0"
    by (simp add: getLimit_def toPosition_def trim_def offset_def is_type_def orient_def
        scenario_defs)
  have mn: "exceededLimit ?env at_rest (Some False) (Some 200)"
    by (simp add: exceeded_min_iff lim) (simp add: orient_def scenario_defs)
  have sz: "sliderSize ?env = 200 * real n"
    by (simp add: scenario_defs)
  have ty: "is_type ?env LOOP"
    by (simp add: is_type_def scenario_defs)
  have df: "orient ?env (200 - getPosition ?env at_rest) < 0"
    by (simp add: pos) (simp add: orient_def scenario_defs)
  have c: "\<lceil>200 / (200 * real n)\<rceil> = 1"
    using assms by (intro ceiling_unit) (simp_all add: field_simps)
  have w: "\<not> waiting initial" by (simp add: initial_def)
  have z: "sliderSize ?env \<noteq> 0" using assms by (simp add: sz)
  have "loop ?env initial at_rest 200 = Finite (200 - 200 * real n)"
    using loop_past_min [OF ty w z mn df] c assms by (simp add: lim sz)
  then show ?thesis
    by (simp add: translate_def algebra_simps)
qed

subsection \<open>The scan of toIndex\<close>

text \<open>
  The scan returns the first slide whose distance its successor does not improve: if the
  distances decrease strictly up to position \<open>k\<close> of the registry and the next slide (if
  any) is not strictly closer, the result is the index of the slide at \<open>k\<close>.
\<close>

lemma toIndex_scan_first_minimum:
  assumes "k < length ss"
    and "\<forall>j<k. \<bar>toPosition env (slide_index (ss ! Suc j)) True - p\<bar>
               < \<bar>toPosition env (slide_index (ss ! j)) True - p\<bar>"
    and "Suc k < length ss \<Longrightarrow>
           \<not> \<bar>toPosition env (slide_index (ss ! Suc k)) True - p\<bar>
               < \<bar>toPosition env (slide_index (ss ! k)) True - p\<bar>"
    and "\<And>m. md = Some m \<Longrightarrow> \<bar>toPosition env (slide_index (ss ! 0)) True - p\<bar> < m"
  shows "toIndex_scan env p ss idx md = slide_index (ss ! k)"
  using assms
proof (induction ss arbitrary: k idx md)
  case Nil
  then show ?case by simp
next
  case (Cons s ss)
  let ?d = "\<bar>toPosition env (slide_index s) True - p\<bar>"
  have step: "toIndex_scan env p (s # ss) idx md
      = toIndex_scan env p ss (slide_index s) (Some ?d)"
    using Cons.prems(4) by (cases md) (simp_all add: Let_def)
  show ?case
  proof (cases k)
    case 0
    show ?thesis
    proof (cases ss)
      case Nil
      with step 0 show ?thesis by simp
    next
      case (Cons t ts)
      with Cons.prems(3) 0
      have "\<not> \<bar>toPosition env (slide_index t) True - p\<bar> < ?d" by simp
      with step 0 Cons show ?thesis by (simp add: Let_def)
    qed
  next
    case (Suc k')
    have "toIndex_scan env p ss (slide_index s) (Some ?d) = slide_index (ss ! k')"
    proof (rule Cons.IH)
      show "k' < length ss" using Cons.prems(1) Suc by simp
      show "\<forall>j<k'. \<bar>toPosition env (slide_index (ss ! Suc j)) True - p\<bar>
               < \<bar>toPosition env (slide_index (ss ! j)) True - p\<bar>"
      proof (intro allI impI)
        fix j assume "j < k'"
        then have "Suc j < k" using Suc by simp
        with Cons.prems(2) show "\<bar>toPosition env (slide_index (ss ! Suc j)) True - p\<bar>
               < \<bar>toPosition env (slide_index (ss ! j)) True - p\<bar>"
          by force
      qed
      show "\<not> \<bar>toPosition env (slide_index (ss ! Suc k')) True - p\<bar>
               < \<bar>toPosition env (slide_index (ss ! k')) True - p\<bar>"
        if "Suc k' < length ss"
        using Cons.prems(3) that Suc by simp
      have "0 < k" using Suc by simp
      with Cons.prems(2) have "\<bar>toPosition env (slide_index ((s # ss) ! Suc 0)) True - p\<bar> < ?d"
        by force
      then show "\<bar>toPosition env (slide_index (ss ! 0)) True - p\<bar> < m"
        if "Some ?d = Some m" for m
        using that by simp
    qed
    with step Suc show ?thesis by simp
  qed
qed

lemma toIndex_of_slide_position:
  fixes env :: Env
  defines "ps \<equiv> map (\<lambda>s. toPosition env (slide_index s) True) (Slides env)"
  assumes k: "k < length (Slides env)"
    and mono: "(\<forall>i j. i < j \<and> j \<le> k \<longrightarrow> ps ! i < ps ! j)
             \<or> (\<forall>i j. i < j \<and> j \<le> k \<longrightarrow> ps ! i > ps ! j)"
  shows "toIndex env (ps ! k) = slide_index (Slides env ! k)"
  unfolding toIndex_def
proof (rule toIndex_scan_first_minimum [OF k])
  have nth: "toPosition env (slide_index (Slides env ! j)) True = ps ! j"
    if "j < length (Slides env)" for j
    using that by (simp add: ps_def)
  show "\<forall>j<k. \<bar>toPosition env (slide_index (Slides env ! Suc j)) True - ps ! k\<bar>
               < \<bar>toPosition env (slide_index (Slides env ! j)) True - ps ! k\<bar>"
  proof (intro allI impI)
    fix j assume j: "j < k"
    then have l: "j < length (Slides env)" "Suc j < length (Slides env)" using k by simp_all
    from mono show "\<bar>toPosition env (slide_index (Slides env ! Suc j)) True - ps ! k\<bar>
               < \<bar>toPosition env (slide_index (Slides env ! j)) True - ps ! k\<bar>"
    proof
      assume up: "\<forall>i j. i < j \<and> j \<le> k \<longrightarrow> ps ! i < ps ! j"
      have a: "ps ! j < ps ! Suc j" using up j by simp
      have b: "ps ! Suc j \<le> ps ! k"
      proof (cases "Suc j = k")
        case True then show ?thesis by simp
      next
        case False
        then have "Suc j < k" using j by simp
        with up show ?thesis by (simp add: less_imp_le)
      qed
      from a b show ?thesis by (simp add: nth l)
    next
      assume down: "\<forall>i j. i < j \<and> j \<le> k \<longrightarrow> ps ! i > ps ! j"
      have a: "ps ! j > ps ! Suc j" using down j by simp
      have b: "ps ! Suc j \<ge> ps ! k"
      proof (cases "Suc j = k")
        case True then show ?thesis by simp
      next
        case False
        then have "Suc j < k" using j by simp
        with down show ?thesis by (simp add: less_imp_le)
      qed
      from a b show ?thesis by (simp add: nth l)
    qed
  qed
  show "\<not> \<bar>toPosition env (slide_index (Slides env ! Suc k)) True - ps ! k\<bar>
               < \<bar>toPosition env (slide_index (Slides env ! k)) True - ps ! k\<bar>"
    using k by (simp add: nth)
  show "\<bar>toPosition env (slide_index (Slides env ! 0)) True - ps ! k\<bar> < m"
    if "None = Some m" for m
    using that by simp
qed

lemma sorted_prefix_nth:
  assumes "k < length xs" and "sorted_wrt P (take (Suc k) xs)" and "i < j" and "j \<le> k"
  shows "P (xs ! i) (xs ! j)"
proof -
  have "j < length (take (Suc k) xs)" using assms(1,4) by simp
  with assms(2,3) have "P (take (Suc k) xs ! i) (take (Suc k) xs ! j)"
    by (rule sorted_wrt_nth_less)
  with assms show ?thesis by simp
qed

lemma strict_chain:
  fixes d :: "nat \<Rightarrow> real"
  assumes "\<forall>j<k. d (Suc j) < d j" and "j < k"
  shows "d k < d j"
  using assms
proof (induction k)
  case 0
  then show ?case by simp
next
  case (Suc k)
  show ?case
  proof (cases "j = k")
    case True
    with Suc.prems show ?thesis by simp
  next
    case False
    with Suc.prems have "j < k" by simp
    moreover from Suc.prems have "\<forall>j<k. d (Suc j) < d j" by simp
    ultimately have "d k < d j" by (rule Suc.IH [rotated])
    moreover from Suc.prems have "d (Suc k) < d k" by simp
    ultimately show ?thesis by simp
  qed
qed

text \<open>
  When the trimmed offsets of the whole registry are strictly monotone, the early break
  loses nothing: \<open>toIndex\<close> returns a slide that is at least as close as every other
  slide and strictly closer than every slide before it (a tie goes to the lower index).
\<close>

lemma toIndex_closest_when_strictly_monotone:
  fixes env :: Env and p :: real
  defines "ps \<equiv> map (\<lambda>s. toPosition env (slide_index s) True) (Slides env)"
  assumes ne: "Slides env \<noteq> []"
    and mono: "sorted_wrt (<) ps \<or> sorted_wrt (>) ps"
  shows "\<exists>k<length (Slides env).
           toIndex env p = slide_index (Slides env ! k)
           \<and> (\<forall>j<length (Slides env). \<bar>ps ! k - p\<bar> \<le> \<bar>ps ! j - p\<bar>)
           \<and> (\<forall>j<k. \<bar>ps ! k - p\<bar> < \<bar>ps ! j - p\<bar>)"
proof -
  let ?n = "length (Slides env)"
  let ?d = "\<lambda>j. \<bar>ps ! j - p\<bar>"
  let ?stop = "\<lambda>k. Suc k = ?n \<or> (Suc k < ?n \<and> \<not> ?d (Suc k) < ?d k)"
  define k where "k = (LEAST k. ?stop k)"
  have len: "length ps = ?n" by (simp add: ps_def)
  have nth: "toPosition env (slide_index (Slides env ! j)) True = ps ! j" if "j < ?n" for j
    using that by (simp add: ps_def)
  have "?stop (?n - 1)" using ne by simp
  then have stop: "?stop k" unfolding k_def by (rule LeastI)
  then have k: "k < ?n" by auto
  have before: "?d (Suc j) < ?d j" if "j < k" for j
  proof -
    from that have "\<not> ?stop j" unfolding k_def by (rule not_less_Least)
    moreover from that k have "Suc j < ?n" by simp
    ultimately show ?thesis by simp
  qed
  have res: "toIndex env p = slide_index (Slides env ! k)"
    unfolding toIndex_def
  proof (rule toIndex_scan_first_minimum [OF k])
    show "\<forall>j<k. \<bar>toPosition env (slide_index (Slides env ! Suc j)) True - p\<bar>
               < \<bar>toPosition env (slide_index (Slides env ! j)) True - p\<bar>"
      using before k by (simp add: nth)
    show "\<not> \<bar>toPosition env (slide_index (Slides env ! Suc k)) True - p\<bar>
               < \<bar>toPosition env (slide_index (Slides env ! k)) True - p\<bar>"
      if "Suc k < ?n"
      using stop that k by (simp add: nth)
    show "\<bar>toPosition env (slide_index (Slides env ! 0)) True - p\<bar> < m"
      if "None = Some m" for m
      using that by simp
  qed
  have lower: "?d k < ?d j" if "j < k" for j
    using before that by (intro strict_chain [of k ?d j]) simp_all
  have upper: "?d k \<le> ?d j" if j: "k < j" "j < ?n" for j
  proof -
    from j have sk: "Suc k < ?n" by simp
    with stop have ns: "\<not> ?d (Suc k) < ?d k" by simp
    from mono show ?thesis
    proof
      assume up: "sorted_wrt (<) ps"
      have a: "ps ! k < ps ! Suc k"
        using up sk len by (intro sorted_wrt_nth_less [of "(<)" ps k "Suc k"]) simp_all
      have b: "ps ! Suc k \<le> ps ! j"
      proof (cases "Suc k = j")
        case True then show ?thesis by simp
      next
        case False
        with j have "Suc k < j" by simp
        with up j len have "ps ! Suc k < ps ! j"
          by (intro sorted_wrt_nth_less [of "(<)" ps "Suc k" j]) simp_all
        then show ?thesis by simp
      qed
      from a b ns show ?thesis by arith
    next
      assume down: "sorted_wrt (>) ps"
      have a: "ps ! k > ps ! Suc k"
        using down sk len by (intro sorted_wrt_nth_less [of "(>)" ps k "Suc k"]) simp_all
      have b: "ps ! Suc k \<ge> ps ! j"
      proof (cases "Suc k = j")
        case True then show ?thesis by simp
      next
        case False
        with j have "Suc k < j" by simp
        with down j len have "ps ! Suc k > ps ! j"
          by (intro sorted_wrt_nth_less [of "(>)" ps "Suc k" j]) simp_all
        then show ?thesis by simp
      qed
      from a b ns show ?thesis by arith
    qed
  qed
  have all: "?d k \<le> ?d j" if "j < ?n" for j
  proof -
    consider "j < k" | "j = k" | "k < j" by arith
    then show ?thesis
    proof cases
      case 1 then show ?thesis using lower [of j] by simp
    next
      case 2 then show ?thesis by simp
    next
      case 3 then show ?thesis using upper that by simp
    qed
  qed
  from k res all lower show ?thesis by blast
qed

text \<open>
  The conversions of the tests (five 200px slides, 200px viewport, default options):
  the midpoints -100 and -300 go to the lower index.
\<close>

lemma toIndex_scenario_values:
  "toIndex (uniform default_options 5 200 200 4) 0 = 0"
  "toIndex (uniform default_options 5 200 200 4) (- 100) = 0"
  "toIndex (uniform default_options 5 200 200 4) (- 101) = 1"
  "toIndex (uniform default_options 5 200 200 4) (- 200) = 1"
  "toIndex (uniform default_options 5 200 200 4) (- 300) = 1"
  "toIndex (uniform default_options 5 200 200 4) (- 301) = 2"
  by (simp_all add: toIndex_def toPosition_def trim_def clamp_def offset_def orient_def
      is_type_def scenario_defs upt_rec Let_def)

section \<open>Admission of move requests\<close>

text \<open>
  C1 (as amended). A call to \<open>move\<close> made while the waiting flag is set (\<open>isBusy\<close>) is
  a no-op: the whole state (motion state, waiting flag, rendered transform, the calls
  made to the transition executor and the notifications emitted) is unchanged. The guard
  is the waiting flag alone and not the motion state: with the flag clear the call is
  accepted whatever the motion state is; it sets the flag to
  \<open>dest \<noteq> index \<or> waitForTransition\<close>, sets the state to moving, emits the move
  event and hands the completion handler to the transition executor.
\<close>

theorem move_admitted_by_waiting_flag:
  "(isBusy st \<longrightarrow> move env rects dest idx prev callback st = st) \<and>
   (\<not> isBusy st \<longrightarrow>
      waiting (move env rects dest idx prev callback st)
        = (dest \<noteq> idx \<or> waitForTransition (options env)) \<and>
      splide_state (move env rects dest idx prev callback st) = MOVING \<and>
      transform (move env rects dest idx prev callback st) = transform st \<and>
      trace (move env rects dest idx prev callback st)
        = trace st @ [Emit EVENT_MOVE idx prev dest,
                      TransitionStart dest \<lparr>h_dest = dest, h_index = idx, h_prev = prev,
                         h_callback = callback, h_position = getPosition env rects\<rparr>])"
  by (simp add: move_def Let_def)

text \<open>
  Witness for C1: a second \<open>move\<close> is dropped in the busy state, and accepted in the
  moving state whose waiting flag is clear.
\<close>

theorem move_admitted_witness:
  "isBusy busy_state \<and>
   move (uniform default_options 5 200 200 4) at_rest 2 2 1 None busy_state = busy_state \<and>
   \<not> isBusy moving_idle_flag \<and>
   splide_state (move (uniform nowait_options 5 200 200 4) at_rest 2 2 1 None moving_idle_flag)
     = MOVING"
proof -
  have b: "isBusy busy_state"
    by (simp add: busy_state_def move_def isBusy_def Let_def scenario_defs)
  have i: "\<not> isBusy moving_idle_flag"
    by (simp add: moving_idle_flag_def move_def isBusy_def Let_def scenario_defs)
  from b i
    move_admitted_by_waiting_flag
      [of busy_state "uniform default_options 5 200 200 4" at_rest 2 2 1 None]
    move_admitted_by_waiting_flag
      [of moving_idle_flag "uniform nowait_options 5 200 200 4" at_rest 2 2 1 None]
  show ?thesis by simp
qed

text \<open>
  C1 as stated fails: while the slider is moving with the waiting flag clear, a second
  \<open>move\<close> is accepted; it emits and delegates again.
\<close>

theorem move_while_moving_counterexample:
  "splide_state moving_idle_flag = MOVING \<and>
   \<not> waiting moving_idle_flag \<and>
   trace (move (uniform nowait_options 5 200 200 4) at_rest 2 2 1 None moving_idle_flag)
     \<noteq> trace moving_idle_flag"
  by (simp add: moving_idle_flag_def move_def isBusy_def Let_def scenario_defs)

section \<open>Completion of a move\<close>

text \<open>
  C2 (as amended). In the completion handler, when \<open>trimSpace\<close> is \<open>'move'\<close>, the
  destination differs from the previous index and the position read before the move
  equals the position read at completion, the handler calls \<open>Controller.go\<close> in the
  direction given by \<open>dest > prev\<close> and passes the original callback on to that call;
  otherwise, and only then, it invokes the callback itself if one was supplied. Both
  happen after the moved event.
\<close>

theorem done_follow_up_carries_callback:
  "(trimSpace (options env) = TrimMove \<and> h_dest h \<noteq> h_prev h
      \<and> h_position h = getPosition env rects' \<longrightarrow>
      trace (transitionDone env rects rects' h st)
        = trace st @ [Emit EVENT_MOVED (h_index h) (h_prev h) (h_dest h),
                      ControllerGo (if h_dest h > h_prev h then ''>'' else ''<'') False
                        (h_callback h)]) \<and>
   (\<not> (trimSpace (options env) = TrimMove \<and> h_dest h \<noteq> h_prev h
      \<and> h_position h = getPosition env rects') \<longrightarrow>
      trace (transitionDone env rects rects' h st)
        = trace st @ Emit EVENT_MOVED (h_index h) (h_prev h) (h_dest h)
            # (case h_callback h of None \<Rightarrow> [] | Some cb \<Rightarrow> [Invoke cb]))"
  by (simp add: transitionDone_def Let_def trace_jump split: option.split)

text \<open>
  Witness for C2: a move absorbed by trimming at the end of the slider issues the
  follow-up; a move that displaced the list invokes the callback.
\<close>

theorem done_follow_up_witness:
  "trace (transitionDone (uniform move_options 5 200 400 4) trimmed_end trimmed_end absorbed
            initial)
     = [Emit EVENT_MOVED 4 3 4, ControllerGo ''>'' False (Some 7)] \<and>
   trace (transitionDone (uniform move_options 5 200 400 4) second_slide second_slide advanced
            initial)
     = [Emit EVENT_MOVED 1 0 1, Invoke 7]"
proof -
  let ?env = "uniform move_options 5 200 400 4"
  have a: "trimSpace (options ?env) = TrimMove \<and> h_dest absorbed \<noteq> h_prev absorbed
      \<and> h_position absorbed = getPosition ?env trimmed_end"
    by (simp add: absorbed_def trimmed_end_def getPosition_def orient_def scenario_defs)
  have d: "\<not> (trimSpace (options ?env) = TrimMove \<and> h_dest advanced \<noteq> h_prev advanced
      \<and> h_position advanced = getPosition ?env second_slide)"
    by (simp add: advanced_def second_slide_def getPosition_def orient_def scenario_defs)
  from a d
    done_follow_up_carries_callback [of ?env absorbed trimmed_end trimmed_end initial]
    done_follow_up_carries_callback [of ?env advanced second_slide second_slide initial]
  show ?thesis by (simp add: absorbed_def advanced_def initial_def)
qed

text \<open>
  C2 as stated fails: the follow-up request carries the original callback (here
  callback 7), it is not issued without it.
\<close>

theorem done_follow_up_counterexample:
  "trimSpace (options (uniform move_options 5 200 400 4)) = TrimMove \<and>
   h_dest absorbed \<noteq> h_prev absorbed \<and>
   h_position absorbed = getPosition (uniform move_options 5 200 400 4) trimmed_end \<and>
   h_callback absorbed = Some 7 \<and>
   trace (transitionDone (uniform move_options 5 200 400 4) trimmed_end trimmed_end absorbed
            initial)
     = [Emit EVENT_MOVED 4 3 4, ControllerGo ''>'' False (Some 7)] \<and>
   ControllerGo ''>'' False None
     \<notin> set (trace (transitionDone (uniform move_options 5 200 400 4) trimmed_end trimmed_end
                     absorbed initial))"
  by (simp add: transitionDone_def Let_def absorbed_def trimmed_end_def getPosition_def
      orient_def scenario_defs)

section \<open>Index and offset\<close>

text \<open>
  C3 (as amended). For the slide at position \<open>k\<close> of a registry, if the trimmed offsets
  of the registry slides up to and including that slide are strictly monotone (strictly
  increasing or strictly decreasing: no two of them share an offset), converting its
  index to the trimmed offset and back yields the index again.
\<close>

theorem toIndex_toPosition_roundtrip:
  assumes "k < length (Slides env)"
    and "sorted_wrt (<)
           (take (Suc k) (map (\<lambda>s. toPosition env (slide_index s) True) (Slides env)))
       \<or> sorted_wrt (>)
           (take (Suc k) (map (\<lambda>s. toPosition env (slide_index s) True) (Slides env)))"
  shows "toIndex env (toPosition env (slide_index (Slides env ! k)) True)
    = slide_index (Slides env ! k)"
proof -
  let ?ps = "map (\<lambda>s. toPosition env (slide_index s) True) (Slides env)"
  have k: "k < length ?ps" using assms(1) by simp
  have "(\<forall>i j. i < j \<and> j \<le> k \<longrightarrow> ?ps ! i < ?ps ! j)
      \<or> (\<forall>i j. i < j \<and> j \<le> k \<longrightarrow> ?ps ! i > ?ps ! j)"
    using assms(2)
  proof
    assume "sorted_wrt (<) (take (Suc k) ?ps)"
    then have "\<forall>i j. i < j \<and> j \<le> k \<longrightarrow> ?ps ! i < ?ps ! j"
      using sorted_prefix_nth [OF k] by blast
    then show ?thesis ..
  next
    assume "sorted_wrt (>) (take (Suc k) ?ps)"
    then have "\<forall>i j. i < j \<and> j \<le> k \<longrightarrow> ?ps ! i > ?ps ! j"
      using sorted_prefix_nth [OF k] by blast
    then show ?thesis ..
  qed
  from toIndex_of_slide_position [OF assms(1) this]
  show ?thesis using assms(1) by simp
qed

text \<open>
  Witness for C3: five 200px slides in a 400px viewport with trimming. The trimmed
  offsets are 0, -200, -400, -600, -600; index 3 is the first slide at -600 and
  round-trips.
\<close>

theorem toIndex_toPosition_roundtrip_witness:
  "toPosition (uniform default_options 5 200 400 4) 3 True = - 600 \<and>
   toIndex (uniform default_options 5 200 400 4)
      (toPosition (uniform default_options 5 200 400 4) 3 True) = 3"
proof -
  let ?env = "uniform default_options 5 200 400 4"
  have s: "Slides ?env = map (\<lambda>i. \<lparr>slide_index = i\<rparr>) [0, 1, 2, 3, 4]"
    by (simp add: scenario_defs upt_rec)
  have p: "map (\<lambda>s. toPosition ?env (slide_index s) True) (Slides ?env)
      = [0, - 200, - 400, - 600, - 600]"
    unfolding s
    by (simp add: toPosition_def trim_def clamp_def offset_def orient_def is_type_def
        scenario_defs)
  have k: "3 < length (Slides ?env)" by (simp add: s)
  have m: "sorted_wrt (<)
             (take (Suc 3) (map (\<lambda>s. toPosition ?env (slide_index s) True) (Slides ?env)))
       \<or> sorted_wrt (>)
             (take (Suc 3) (map (\<lambda>s. toPosition ?env (slide_index s) True) (Slides ?env)))"
    unfolding p by simp
  have n: "slide_index (Slides ?env ! 3) = 3" by (simp add: s)
  from toIndex_toPosition_roundtrip [OF k m] n p
  show ?thesis by (simp add: s)
qed

text \<open>
  C3 as stated fails: with centred focus and trimming (five 200px slides, 600px
  viewport, last reachable index 4) the slides 0 and 1 share the trimmed offset 0, and
  the round trip of index 1 yields 0.
\<close>

theorem toIndex_toPosition_counterexample:
  "\<lparr>slide_index = 1\<rparr> \<in> set (Slides (uniform center_options 5 200 600 4)) \<and>
   1 \<le> getEnd (uniform center_options 5 200 600 4) \<and>
   toPosition (uniform center_options 5 200 600 4) 0 True = 0 \<and>
   toPosition (uniform center_options 5 200 600 4) 1 True = 0 \<and>
   toIndex (uniform center_options 5 200 600 4)
     (toPosition (uniform center_options 5 200 600 4) 1 True) \<noteq> 1"
  by (simp add: toIndex_def toPosition_def trim_def clamp_def offset_def orient_def is_type_def
      scenario_defs upt_rec Let_def)

section \<open>Loop wrapper\<close>

text \<open>
  C4. In loop mode with the waiting flag clear and a non-zero slider size: a requested
  offset that exceeds the minimum limit while the oriented delta from the current offset
  is negative, or exceeds the maximum limit while that delta is positive, is wrapped to
  the offset minus \<open>sign(excess) * ceil(|excess| / sliderSize)\<close> slider sizes, where
  the excess is the offset minus the exceeded limit. With a slider size of 0 the same
  expression divides by zero and the result is NaN. In the loop scenario (\<open>n \<ge> 1\<close>
  slides of 200px, 200px viewport, list at rest), \<open>translate(200)\<close> renders
  \<open>-(200 * (n - 1))\<close>.
\<close>

theorem loop_wraps_by_slider_size:
  "(is_type env LOOP \<and> \<not> waiting st \<and> sliderSize env \<noteq> 0 \<and>
    exceededLimit env rects (Some False) (Some p) \<and> orient env (p - getPosition env rects) < 0
    \<longrightarrow> loop env st rects p
        = Finite (p - sgn (p - getLimit env False) * sliderSize env
            * of_int \<lceil>\<bar>p - getLimit env False\<bar> / sliderSize env\<rceil>)) \<and>
   (is_type env LOOP \<and> \<not> waiting st \<and> sliderSize env \<noteq> 0 \<and>
    exceededLimit env rects (Some True) (Some p) \<and> orient env (p - getPosition env rects) > 0
    \<longrightarrow> loop env st rects p
        = Finite (p - sgn (p - getLimit env True) * sliderSize env
            * of_int \<lceil>\<bar>p - getLimit env True\<bar> / sliderSize env\<rceil>)) \<and>
   (is_type env LOOP \<and> \<not> waiting st \<and> sliderSize env = 0 \<and>
    ((exceededLimit env rects (Some False) (Some p)
        \<and> orient env (p - getPosition env rects) < 0)
     \<or> (exceededLimit env rects (Some True) (Some p)
        \<and> orient env (p - getPosition env rects) > 0))
    \<longrightarrow> loop env st rects p = NaN) \<and>
   (1 \<le> n \<longrightarrow>
      transform (translate (uniform loop_options n 200 200 (int n - 1)) at_rest 200 False initial)
        = Some (Finite (- (200 * (real n - 1)))))"
  using loop_past_min [of env st rects p] loop_past_max [of env st rects p]
    loop_zero_size [of env st rects p] loop_scenario_translate [of n]
  by blast

text \<open>
  Witness for C4, with five slides: 200 is 200 past the minimum limit 0 and wraps by one
  slider size to -800; from the last slide, -2100 is 1300 past the maximum limit -800
  and wraps by two slider sizes to -100. With no slides at all the slider size is 0 and
  the wrap of 200 is NaN.
\<close>

theorem loop_wraps_witness:
  "loop (uniform loop_options 5 200 200 4) initial at_rest 200 = Finite (- 800) \<and>
   loop (uniform loop_options 5 200 200 4) initial last_slide (- 2100) = Finite (- 100) \<and>
   loop (uniform loop_options 0 200 200 0) initial at_rest 200 = NaN \<and>
   transform (translate (uniform loop_options 5 200 200 4) at_rest 200 False initial)
     = Some (Finite (- 800))"
proof -
  let ?empty = "uniform loop_options 0 200 200 0"
  have e: "is_type ?empty LOOP \<and> \<not> waiting initial \<and> sliderSize ?empty = 0 \<and>
      ((exceededLimit ?empty at_rest (Some False) (Some 200)
          \<and> orient ?empty (200 - getPosition ?empty at_rest) < 0)
       \<or> (exceededLimit ?empty at_rest (Some True) (Some 200)
          \<and> orient ?empty (200 - getPosition ?empty at_rest) > 0))"
    by (simp add: exceeded_min_iff getLimit_def toPosition_def trim_def offset_def
        getPosition_def is_type_def orient_def scenario_defs)
  let ?env = "uniform loop_options 5 200 200 4"
  have lim: "getLimit ?env False = 0" "getLimit ?env True = - 800"
    by (simp_all add: getLimit_def toPosition_def trim_def offset_def is_type_def orient_def
        scenario_defs)
  have pos: "getPosition ?env at_rest = 0" "getPosition ?env last_slide = - 800"
    by (simp_all add: getPosition_def orient_def last_slide_def scenario_defs)
  have h: "is_type ?env LOOP \<and> \<not> waiting initial \<and> sliderSize ?env \<noteq> 0"
    by (simp add: is_type_def scenario_defs)
  have mn: "exceededLimit ?env at_rest (Some False) (Some 200)
      \<and> orient ?env (200 - getPosition ?env at_rest) < 0"
    by (simp add: exceeded_min_iff lim pos) (simp add: orient_def scenario_defs)
  have mx: "exceededLimit ?env last_slide (Some True) (Some (- 2100))
      \<and> orient ?env (- 2100 - getPosition ?env last_slide) > 0"
    by (simp add: exceeded_max_iff lim pos) (simp add: orient_def scenario_defs)
  have sz: "sliderSize ?env = 1000" by (simp add: scenario_defs)
  have c: "\<lceil>(1::real) / 5\<rceil> = 1" "\<lceil>(13::real) / 10\<rceil> = 2"
    by (simp_all add: ceiling_eq_iff)
  from loop_wraps_by_slider_size [of ?env initial at_rest 200 5]
    loop_wraps_by_slider_size [of ?env initial last_slide "- 2100" 5]
    loop_wraps_by_slider_size [of ?empty initial at_rest 200 5]
    h mn mx e
  show ?thesis by (simp add: lim sz c)
qed

text \<open>
  C5 (as amended). Applying the wrap to a wrapped offset changes nothing whenever the
  wrapped offset exceeds neither limit; this is so for every offset when the slider size
  is positive and not larger than the oriented distance between the two limits. (Current
  offset and geometry are the same in both applications.)
\<close>

theorem loop_idempotent_within_limits:
  "(loop env st rects x = Finite y \<and> \<not> exceededLimit env rects None (Some y)
      \<longrightarrow> loop env st rects y = Finite y) \<and>
   (0 < sliderSize env \<and>
    sliderSize env \<le> orient env (getLimit env True) - orient env (getLimit env False)
      \<longrightarrow> (\<exists>z. loop env st rects x = Finite z \<and> loop env st rects z = Finite z))"
proof (intro conjI impI)
  assume "loop env st rects x = Finite y \<and> \<not> exceededLimit env rects None (Some y)"
  then have "\<not> exceededLimit env rects (Some False) (Some y)"
    and "\<not> exceededLimit env rects (Some True) (Some y)"
    by (simp_all add: exceeded_both_iff exceeded_min_iff exceeded_max_iff)
  then show "loop env st rects y = Finite y"
    by (intro loop_within) simp_all
next
  assume "0 < sliderSize env \<and>
    sliderSize env \<le> orient env (getLimit env True) - orient env (getLimit env False)"
  then show "\<exists>z. loop env st rects x = Finite z \<and> loop env st rects z = Finite z"
    by (intro loop_idempotent_when_size_fits) simp_all
qed

text \<open>
  Witness for C5: with five 200px slides, 300 wraps to -700, which lies within the
  limits -800 and 0 and is left alone; in the fitted geometry (slider size 800) 100
  wraps to -700 and stays there.
\<close>

theorem loop_idempotent_witness:
  "loop (uniform loop_options 5 200 200 4) initial at_rest 300 = Finite (- 700) \<and>
   loop (uniform loop_options 5 200 200 4) initial at_rest (- 700) = Finite (- 700) \<and>
   loop fitted initial at_rest 100 = Finite (- 700) \<and>
   loop fitted initial at_rest (- 700) = Finite (- 700)"
proof -
  let ?env = "uniform loop_options 5 200 200 4"
  have c: "\<lceil>(3::real) / 10\<rceil> = 1" "\<lceil>(1::real) / 8\<rceil> = 1"
    by (simp_all add: ceiling_eq_iff)
  have a: "loop ?env initial at_rest 300 = Finite (- 700)"
    by (simp add: loop_def Let_def exceededLimit_def getLimit_def getPosition_def
        toPosition_def trim_def offset_def is_type_def orient_def scenario_defs c)
  have b: "\<not> exceededLimit ?env at_rest None (Some (- 700))"
    by (simp add: exceededLimit_def Let_def getLimit_def toPosition_def trim_def offset_def
        is_type_def orient_def scenario_defs)
  have f: "loop fitted initial at_rest 100 = Finite (- 700)"
    by (simp add: fitted_def loop_def Let_def exceededLimit_def getLimit_def getPosition_def
        toPosition_def trim_def offset_def is_type_def orient_def scenario_defs c)
  have g: "0 < sliderSize fitted \<and>
      sliderSize fitted \<le> orient fitted (getLimit fitted True) - orient fitted (getLimit fitted False)"
    by (simp add: fitted_def getLimit_def toPosition_def trim_def offset_def is_type_def
        orient_def scenario_defs)
  from loop_idempotent_within_limits [of ?env initial at_rest 300 "- 700"]
    loop_idempotent_within_limits [of fitted initial at_rest 100] a b f g
  show ?thesis by simp
qed

text \<open>
  C5 as stated fails: with five 200px slides (slider size 1000, limits 0 and -800) and
  the list at rest, 100 wraps to -900, beyond the maximum limit, and -900 wraps back
  to 100.
\<close>

theorem loop_not_idempotent_counterexample:
  "is_type (uniform loop_options 5 200 200 4) LOOP \<and>
   loop (uniform loop_options 5 200 200 4) initial at_rest 100 = Finite (- 900) \<and>
   loop (uniform loop_options 5 200 200 4) initial at_rest (- 900) = Finite 100"
proof -
  have c: "\<lceil>(1::real) / 10\<rceil> = 1"
    by (simp add: ceiling_eq_iff)
  show ?thesis
    by (simp add: loop_def Let_def exceededLimit_def getLimit_def getPosition_def
        toPosition_def trim_def offset_def is_type_def orient_def scenario_defs c)
qed

section \<open>Closest slide\<close>

text \<open>
  C6 (the code at the failing input). With centred focus and trimming (five 200px
  slides, 600px viewport) the trimmed offsets are 0, 0, -200, -400, -400. For the
  offset -200 the scan stops at slide 1, which is not strictly closer than slide 0, and
  returns index 0 at distance 200, although slide 2 sits exactly at -200.
\<close>

theorem toIndex_plateau_not_closest:
  "map (\<lambda>s. toPosition (uniform center_options 5 200 600 4) (slide_index s) True)
       (Slides (uniform center_options 5 200 600 4)) = [0, 0, - 200, - 400, - 400] \<and>
   toIndex (uniform center_options 5 200 600 4) (- 200) = 0"
  by (simp add: toIndex_def toPosition_def trim_def clamp_def offset_def orient_def is_type_def
      scenario_defs upt_rec Let_def)

section \<open>The busy flag\<close>

text \<open>
  C7 (as amended). \<open>isBusy\<close> is false initially; after an accepted \<open>move\<close> it is
  true exactly when the destination differs from the index or \<open>waitForTransition\<close> is
  set; a dropped \<open>move\<close> leaves it set; it is false after the completion handler has
  run and also after \<open>cancel\<close>; \<open>jump\<close> and \<open>translate\<close> do not change it.
\<close>

theorem busy_flag_lifecycle:
  "\<not> isBusy initial \<and>
   (\<not> isBusy st \<longrightarrow>
      isBusy (move env rects dest idx prev callback st)
        = (dest \<noteq> idx \<or> waitForTransition (options env))) \<and>
   (isBusy st \<longrightarrow> isBusy (move env rects dest idx prev callback st)) \<and>
   \<not> isBusy (transitionDone env rects rects' h st) \<and>
   \<not> isBusy (cancel env rects st) \<and>
   isBusy (jump env rects i st) = isBusy st \<and>
   isBusy (translate env rects p b st) = isBusy st"
  by (simp add: isBusy_def initial_def move_def transitionDone_def cancel_def jump_def
      translate_def Let_def split: option.split)

text \<open>
  Witness for C7: the moves of the tests (\<open>move(1, 1, -1)\<close> with the default options,
  a move to the clone index 5 without \<open>waitForTransition\<close>), a move that needs no
  waiting, and a move dropped in the busy state.
\<close>

theorem busy_flag_witness:
  "\<not> isBusy initial \<and>
   isBusy (move (uniform default_options 5 200 200 4) at_rest 1 1 (- 1) None initial) \<and>
   \<not> isBusy (move (uniform nowait_options 5 200 200 4) at_rest 1 1 0 None initial) \<and>
   isBusy (move (uniform nowait_options 5 200 200 4) at_rest 5 0 4 None initial) \<and>
   isBusy (move (uniform default_options 5 200 200 4) at_rest 2 2 1 None busy_state)"
proof -
  have i: "\<not> isBusy initial" by (simp add: isBusy_def initial_def)
  have b: "isBusy busy_state"
    by (simp add: busy_state_def move_def isBusy_def Let_def scenario_defs)
  from i b
    busy_flag_lifecycle
      [of initial "uniform default_options 5 200 200 4" at_rest 1 1 "- 1" None]
    busy_flag_lifecycle [of initial "uniform nowait_options 5 200 200 4" at_rest 1 1 0 None]
    busy_flag_lifecycle [of initial "uniform nowait_options 5 200 200 4" at_rest 5 0 4 None]
    busy_flag_lifecycle
      [of busy_state "uniform default_options 5 200 200 4" at_rest 2 2 1 None]
  show ?thesis by (simp add: scenario_defs)
qed

text \<open>
  C7 as stated fails: \<open>cancel\<close> clears the waiting flag during the cycle, without the
  completion handler having run (the state is still moving, no moved event is emitted).
\<close>

theorem busy_flag_cancel_counterexample:
  "isBusy busy_state \<and>
   \<not> isBusy (cancel (uniform default_options 5 200 200 4) at_rest busy_state) \<and>
   splide_state (cancel (uniform default_options 5 200 200 4) at_rest busy_state) = MOVING \<and>
   trace (cancel (uniform default_options 5 200 200 4) at_rest busy_state)
     = trace busy_state @ [TransitionCancel]"
  by (simp add: busy_state_def isBusy_def move_def cancel_def translate_def Let_def
      scenario_defs)

section \<open>Limits and trimming\<close>

text \<open>
  C8. The limits are inclusive. The minimum limit itself does not exceed the minimum,
  while every offset displaced past it by some \<open>\<epsilon> > 0\<close> in oriented coordinates
  (\<open>orient p = orient (limit False) - \<epsilon>\<close>) does; likewise the maximum limit does not
  exceed the maximum and an offset \<open>\<epsilon>\<close> past it does. With \<open>max\<close> undefined the test
  is true iff one of the two bounds is exceeded, and an undefined position stands for
  the current one.
\<close>

theorem limit_boundary_inclusive:
  "\<not> exceededLimit env rects (Some False) (Some (getLimit env False)) \<and>
   (0 < \<epsilon> \<and> orient env pmin = orient env (getLimit env False) - \<epsilon>
      \<longrightarrow> exceededLimit env rects (Some False) (Some pmin)) \<and>
   \<not> exceededLimit env rects (Some True) (Some (getLimit env True)) \<and>
   (0 < \<epsilon> \<and> orient env pmax = orient env (getLimit env True) + \<epsilon>
      \<longrightarrow> exceededLimit env rects (Some True) (Some pmax)) \<and>
   exceededLimit env rects None (Some q)
     = (exceededLimit env rects (Some False) (Some q) \<or>
        exceededLimit env rects (Some True) (Some q)) \<and>
   exceededLimit env rects mx None = exceededLimit env rects mx (Some (getPosition env rects))"
  by (auto simp add: exceededLimit_def Let_def)

text \<open>
  Witness for C8, in the scenario of the tests (five 200px slides, left to right,
  limits 0 and -800): 10 is past the minimum limit, -810 past the maximum limit.
\<close>

theorem limit_boundary_witness:
  "\<not> exceededLimit (uniform default_options 5 200 200 4) at_rest (Some False) (Some 0) \<and>
   exceededLimit (uniform default_options 5 200 200 4) at_rest (Some False) (Some 10) \<and>
   \<not> exceededLimit (uniform default_options 5 200 200 4) at_rest (Some True) (Some (- 800)) \<and>
   exceededLimit (uniform default_options 5 200 200 4) at_rest (Some True) (Some (- 810)) \<and>
   exceededLimit (uniform default_options 5 200 200 4) at_rest None (Some 10)"
proof -
  let ?env = "uniform default_options 5 200 200 4"
  have l: "getLimit ?env False = 0" "getLimit ?env True = - 800"
    by (simp_all add: getLimit_def toPosition_def trim_def clamp_def offset_def orient_def
        is_type_def scenario_defs)
  have o: "0 < (10::real) \<and> orient ?env 10 = orient ?env (getLimit ?env False) - 10"
      "0 < (10::real) \<and> orient ?env (- 810) = orient ?env (getLimit ?env True) + 10"
    unfolding l by (simp_all add: orient_def scenario_defs)
  from limit_boundary_inclusive [of ?env at_rest 10 10 "- 810" 10] o
  show ?thesis by (simp add: l)
qed

text \<open>
  C9. The trimmed position of an index is the untrimmed one clamped between 0 and
  \<open>orient (sliderSize - listSize)\<close> exactly when \<open>trimSpace\<close> is enabled and the
  slider type is \<open>slide\<close>; then it lies between these two bounds. In every other case
  (loop or fade type, or trimming disabled) the trimmed position equals the untrimmed
  one.
\<close>

theorem trim_only_in_slide_mode:
  "toPosition env idx True
     = (if trimSpace (options env) \<noteq> TrimFalse \<and> is_type env SLIDE
        then clamp (toPosition env idx False) 0 (orient env (sliderSize env - listSize env))
        else toPosition env idx False) \<and>
   (trimSpace (options env) \<noteq> TrimFalse \<and> is_type env SLIDE \<longrightarrow>
      min 0 (orient env (sliderSize env - listSize env)) \<le> toPosition env idx True \<and>
      toPosition env idx True \<le> max 0 (orient env (sliderSize env - listSize env)))"
  by (auto simp add: toPosition_def trim_def clamp_def Let_def)

text \<open>
  Witness for C9: five 200px slides in a 400px viewport. Index 4 sits at -800 untrimmed;
  it is trimmed to -600 in slide mode, and left at -800 in loop mode or with trimming
  disabled.
\<close>

theorem trim_witness:
  "toPosition (uniform default_options 5 200 400 4) 4 False = - 800 \<and>
   toPosition (uniform default_options 5 200 400 4) 4 True = - 600 \<and>
   toPosition (uniform loop_options 5 200 400 4) 4 True = - 800 \<and>
   toPosition (uniform (default_options\<lparr>trimSpace := TrimFalse\<rparr>) 5 200 400 4) 4 True = - 800"
proof -
  let ?s = "uniform default_options 5 200 400 4"
  let ?l = "uniform loop_options 5 200 400 4"
  let ?n = "uniform (default_options\<lparr>trimSpace := TrimFalse\<rparr>) 5 200 400 4"
  have u: "toPosition ?s 4 False = - 800" "toPosition ?l 4 False = - 800"
      "toPosition ?n 4 False = - 800"
    by (simp_all add: toPosition_def offset_def orient_def scenario_defs)
  have g: "trimSpace (options ?s) \<noteq> TrimFalse \<and> is_type ?s SLIDE" "\<not> is_type ?l SLIDE"
      "trimSpace (options ?n) = TrimFalse"
      "orient ?s (sliderSize ?s - listSize ?s) = - 600"
    by (simp_all add: is_type_def orient_def scenario_defs)
  from trim_only_in_slide_mode [of ?s 4] trim_only_in_slide_mode [of ?l 4]
    trim_only_in_slide_mode [of ?n 4] u g
  show ?thesis by (simp add: clamp_def)
qed

section \<open>Cancelling\<close>

text \<open>
  C10. The wrap of the current offset is the current offset, whatever the limits are
  (the oriented delta is 0, so neither branch fires); hence \<open>cancel\<close> clears the waiting
  flag and renders exactly the current offset.
\<close>

theorem loop_fixes_current_position:
  "loop env st rects (getPosition env rects) = Finite (getPosition env rects) \<and>
   transform (cancel env rects st) = Some (Finite (getPosition env rects)) \<and>
   \<not> waiting (cancel env rects st)"
  by (simp add: loop_def cancel_def translate_def Let_def orient_def)

text \<open>
  Witness for C10: in loop mode with the list 10 past the minimum limit, the current
  offset 10 exceeds the limits and is still rendered as 10.
\<close>

theorem loop_fixes_current_position_witness:
  "exceededLimit (uniform loop_options 5 200 200 4) overshot None None \<and>
   loop (uniform loop_options 5 200 200 4) initial overshot 10 = Finite 10 \<and>
   transform (cancel (uniform loop_options 5 200 200 4) overshot busy_state)
     = Some (Finite 10)"
proof -
  let ?env = "uniform loop_options 5 200 200 4"
  have p: "getPosition ?env overshot = 10"
    by (simp add: getPosition_def overshot_def orient_def scenario_defs)
  have x: "exceededLimit ?env overshot None None"
    by (simp add: exceededLimit_def Let_def getPosition_def overshot_def getLimit_def
        toPosition_def trim_def offset_def is_type_def orient_def scenario_defs)
  from loop_fixes_current_position [of ?env initial overshot]
    loop_fixes_current_position [of ?env busy_state overshot] p x
  show ?thesis by simp
qed

end
